theory Spec2Isabelle
  imports Complex_Main
begin

section \<open>Python values of the interaction payload\<close>

text \<open>
  \<^verbatim>\<open>request.json\<close> is whatever the JSON parser returns: \<^verbatim>\<open>None\<close>, a bool, an int, a
  float, a str, a list or a dict. A Python \<^verbatim>\<open>str\<close> is represented by its UTF-8 encoding
  (a list of bytes), a dict by an association list read through \<open>map_of\<close> (one binding per
  key counts, the first), a finite float by its rational value. The non-finite floats that
  Python's parser also accepts are not represented.
\<close>

datatype json =
    JNull
  | JBool bool
  | JInt int
  | JFloat rat
  | JStr string
  | JArr "json list"
  | JObj "(string \<times> json) list"

text \<open>Faults (Python exceptions) of the request handler, each with its \<^verbatim>\<open>str(e)\<close>.\<close>

datatype fault =
    AttributeError string
  | TypeError string
  | ExternalError string

fun fault_str :: "fault \<Rightarrow> string" where
  "fault_str (AttributeError m) = m"
| "fault_str (TypeError m) = m"
| "fault_str (ExternalError m) = m"

text \<open>Sequencing of computations that may raise: the first fault ends the computation.\<close>

fun and_then :: "fault + 'a \<Rightarrow> ('a \<Rightarrow> fault + 'b) \<Rightarrow> fault + 'b" where
  "and_then (Inl e) f = Inl e"
| "and_then (Inr v) f = f v"

text \<open>Truth value testing, as \<^verbatim>\<open>or\<close>, \<^verbatim>\<open>not\<close> and \<^verbatim>\<open>if\<close> apply it.\<close>

fun truthy :: "json \<Rightarrow> bool" where
  "truthy JNull = False"
| "truthy (JBool b) = b"
| "truthy (JInt n) = (n \<noteq> 0)"
| "truthy (JFloat q) = (q \<noteq> 0)"
| "truthy (JStr s) = (s \<noteq> [])"
| "truthy (JArr xs) = (xs \<noteq> [])"
| "truthy (JObj kvs) = (kvs \<noteq> [])"

fun type_name :: "json \<Rightarrow> string" where
  "type_name JNull = ''NoneType''"
| "type_name (JBool b) = ''bool''"
| "type_name (JInt n) = ''int''"
| "type_name (JFloat q) = ''float''"
| "type_name (JStr s) = ''str''"
| "type_name (JArr xs) = ''list''"
| "type_name (JObj kvs) = ''dict''"

definition no_attribute_get :: "json \<Rightarrow> fault" where
  "no_attribute_get v =
     AttributeError ([CHR 0x27] @ type_name v @ [CHR 0x27] @ '' object has no attribute ''
                     @ [CHR 0x27] @ ''get'' @ [CHR 0x27])"

definition not_iterable :: "json \<Rightarrow> fault" where
  "not_iterable v = TypeError ([CHR 0x27] @ type_name v @ [CHR 0x27] @ '' object is not iterable'')"

text \<open>
  \<^verbatim>\<open>v.get(k)\<close>: \<^verbatim>\<open>None\<close> for a missing key, AttributeError when \<open>v\<close> is not a dict.
  \<open>field kvs k\<close> is the value for a dict with the bindings \<open>kvs\<close>.
\<close>

definition field :: "(string \<times> json) list \<Rightarrow> string \<Rightarrow> json" where
  "field kvs k = (case map_of kvs k of None \<Rightarrow> JNull | Some x \<Rightarrow> x)"

fun py_get :: "json \<Rightarrow> string \<Rightarrow> fault + json" where
  "py_get (JObj kvs) k = Inr (field kvs k)"
| "py_get v k = Inl (no_attribute_get v)"

text \<open>\<^verbatim>\<open>v.get(k, default)\<close>: the default only for a missing key.\<close>

fun py_get_default :: "json \<Rightarrow> string \<Rightarrow> json \<Rightarrow> fault + json" where
  "py_get_default (JObj kvs) k d = Inr (case map_of kvs k of None \<Rightarrow> d | Some x \<Rightarrow> x)"
| "py_get_default v k d = Inl (no_attribute_get v)"

text \<open>\<^verbatim>\<open>v == n\<close> for an int literal: \<^verbatim>\<open>True == 1\<close> and \<^verbatim>\<open>1.0 == 1\<close> hold in Python.\<close>

fun eq_int :: "json \<Rightarrow> int \<Rightarrow> bool" where
  "eq_int (JInt m) n = (m = n)"
| "eq_int (JBool b) n = ((if b then 1 else 0) = n)"
| "eq_int (JFloat q) n = (q = of_int n)"
| "eq_int v n = False"

text \<open>\<^verbatim>\<open>v == s\<close> for a str literal.\<close>

fun eq_str :: "json \<Rightarrow> string \<Rightarrow> bool" where
  "eq_str (JStr t) s = (t = s)"
| "eq_str v s = False"

section \<open>Display name and option lookup\<close>

text \<open>\<^verbatim>\<open>v or {}\<close>: \<open>v\<close> itself unless it is falsy.\<close>

definition or_empty :: "json \<Rightarrow> json" where
  "or_empty v = (if truthy v then v else JObj [])"

definition extract_user_display :: "json \<Rightarrow> fault + json" where
  "extract_user_display data =
     and_then (py_get data ''member'') (\<lambda>m0.
     let member = or_empty m0 in
     and_then (py_get member ''user'') (\<lambda>u0.
     and_then (if truthy u0 then Inr u0
               else and_then (py_get data ''user'') (\<lambda>u1. Inr (or_empty u1))) (\<lambda>user.
     and_then (py_get member ''nick'') (\<lambda>nick.
     if truthy nick then Inr nick
     else and_then (py_get user ''global_name'') (\<lambda>g.
          if truthy g then Inr g
          else and_then (py_get user ''username'') (\<lambda>n.
               if truthy n then Inr n else Inr (JStr ''Unknown'')))))))"

text \<open>The loop of \<^verbatim>\<open>option_value\<close> over the elements of a list.\<close>

fun option_scan :: "json list \<Rightarrow> string \<Rightarrow> json \<Rightarrow> fault + json" where
  "option_scan [] name d = Inr d"
| "option_scan (opt # os) name d =
     and_then (py_get opt ''name'') (\<lambda>n.
     if eq_str n name then py_get_default opt ''value'' d else option_scan os name d)"

text \<open>
  \<^verbatim>\<open>for o in options\<close> iterates the elements of a list, the keys of a dict and the
  characters of a str (str values, on which \<^verbatim>\<open>.get\<close> raises at the first one); a number
  or bool is not iterable. Falsy values were returned before the loop.
\<close>

fun option_value :: "json \<Rightarrow> string \<Rightarrow> json \<Rightarrow> fault + json" where
  "option_value (JArr os) name d = option_scan os name d"
| "option_value (JObj kvs) name d =
     (if kvs = [] then Inr d else Inl (no_attribute_get (JStr (fst (hd kvs)))))"
| "option_value (JStr s) name d =
     (if s = [] then Inr d else Inl (no_attribute_get (JStr [hd s])))"
| "option_value v name d = (if truthy v then Inl (not_iterable v) else Inr d)"

section \<open>What the handler does not own\<close>

text \<open>
  The Ed25519 primitive (PyNaCl), the clock, the spreadsheet service and Python's
  \<^verbatim>\<open>str()\<close> of floats and containers are not code of this program: they are parameters
  of the model. \<open>verify_key_accepts k\<close> says that \<^verbatim>\<open>VerifyKey(k)\<close> is constructed without
  raising, \<open>signature_verifies k m s\<close> that \<^verbatim>\<open>VerifyKey(k).verify(m, s)\<close> returns without
  raising. \<open>clock\<close> is the outcome of \<^verbatim>\<open>datetime.now(ZoneInfo(TZ))\<close>: the message of the
  exception, or the date and the time as \<^verbatim>\<open>strftime\<close> formats them. \<open>append_row_fault row\<close>
  is the message of the exception \<^verbatim>\<open>sheet.append_row(row)\<close> raises, if it raises.
\<close>

type_synonym row = "string list"

record externals =
  verify_key_accepts :: "string \<Rightarrow> bool"
  signature_verifies :: "string \<Rightarrow> string \<Rightarrow> string \<Rightarrow> bool"
  clock :: "string + string \<times> string"
  append_row_fault :: "row \<Rightarrow> string option"
  str_other :: "json \<Rightarrow> string"

function dec_nat :: "nat \<Rightarrow> string" where
  "dec_nat n = (if n < 10 then [char_of (48 + n)]
                else dec_nat (n div 10) @ [char_of (48 + n mod 10)])"
  by pat_completeness auto
termination
  by (relation "measure id") auto

definition dec_int :: "int \<Rightarrow> string" where
  "dec_int i = (if i < 0 then ''-'' @ dec_nat (nat (- i)) else dec_nat (nat i))"

text \<open>\<^verbatim>\<open>str(v)\<close>, which is also what an f-string puts in place of \<^verbatim>\<open>{v}\<close>.\<close>

fun py_str :: "externals \<Rightarrow> json \<Rightarrow> string" where
  "py_str w (JStr s) = s"
| "py_str w JNull = ''None''"
| "py_str w (JBool b) = (if b then ''True'' else ''False'')"
| "py_str w (JInt n) = dec_int n"
| "py_str w v = str_other w v"

section \<open>The spreadsheet logger\<close>

datatype verify_fault =
    MissingHeader string
  | UnicodeDecodeError
  | NonHexadecimal
  | KeyRejected
  | BadSignature

datatype log_entry =
    GuildIdWarning
  | RegisterInfo
  | RegisterError nat string
  | SignatureWarning verify_fault
  | CommandException fault

text \<open>
  The state a request can change: the rows of the worksheet, the rows handed to
  \<^verbatim>\<open>append_row\<close> (every call, also one that raised) and what was logged.
\<close>

record state =
  sheet :: "row list"
  append_calls :: "row list"
  logged :: "log_entry list"

definition log_to_sheet ::
  "externals \<Rightarrow> json \<Rightarrow> string \<Rightarrow> json \<Rightarrow> json \<Rightarrow> state \<Rightarrow> (fault + unit) \<times> state" where
  "log_to_sheet w name action task_title desc s =
     (case clock w of
        Inl m \<Rightarrow> (Inl (ExternalError m), s)
      | Inr (date_str, time_str) \<Rightarrow>
          let row = [date_str, py_str w name, action, time_str, py_str w task_title, py_str w desc]
          in (case append_row_fault w row of
                Some m \<Rightarrow> (Inl (ExternalError m), s\<lparr>append_calls := append_calls s @ [row]\<rparr>)
              | None \<Rightarrow> (Inr (), s\<lparr>sheet := sheet s @ [row],
                                    append_calls := append_calls s @ [row]\<rparr>)))"

section \<open>The signature verifier\<close>

text \<open>Python's strict UTF-8 decoder accepts exactly the well-formed sequences.\<close>

definition cont :: "char \<Rightarrow> nat \<Rightarrow> nat \<Rightarrow> bool" where
  "cont c lo hi = (lo \<le> (of_char c :: nat) \<and> (of_char c :: nat) \<le> hi)"

fun valid_utf8 :: "string \<Rightarrow> bool" where
  "valid_utf8 [] = True"
| "valid_utf8 (c # cs) =
     (if cont c 0x00 0x7F then valid_utf8 cs
      else if cont c 0xC2 0xDF then
        (case cs of c1 # r \<Rightarrow> cont c1 0x80 0xBF \<and> valid_utf8 r | _ \<Rightarrow> False)
      else if cont c 0xE0 0xEF then
        (case cs of c1 # c2 # r \<Rightarrow>
           cont c1 (if cont c 0xE0 0xE0 then 0xA0 else 0x80)
                   (if cont c 0xED 0xED then 0x9F else 0xBF)
           \<and> cont c2 0x80 0xBF \<and> valid_utf8 r
         | _ \<Rightarrow> False)
      else if cont c 0xF0 0xF4 then
        (case cs of c1 # c2 # c3 # r \<Rightarrow>
           cont c1 (if cont c 0xF0 0xF0 then 0x90 else 0x80)
                   (if cont c 0xF4 0xF4 then 0x8F else 0xBF)
           \<and> cont c2 0x80 0xBF \<and> cont c3 0x80 0xBF \<and> valid_utf8 r
         | _ \<Rightarrow> False)
      else False)"

definition hex_digit :: "char \<Rightarrow> nat option" where
  "hex_digit c =
     (let n = (of_char c :: nat) in
      if 48 \<le> n \<and> n \<le> 57 then Some (n - 48)
      else if 97 \<le> n \<and> n \<le> 102 then Some (n - 87)
      else if 65 \<le> n \<and> n \<le> 70 then Some (n - 55)
      else None)"

definition is_space :: "char \<Rightarrow> bool" where
  "is_space c = ((of_char c :: nat) \<in> {9, 10, 11, 12, 13, 32})"

text \<open>
  \<^verbatim>\<open>bytes.fromhex\<close>: two hexadecimal digits for each byte, of either case; ASCII
  whitespace is skipped before a byte, never inside one. \<open>None\<close> is the ValueError.
\<close>

fun fromhex :: "string \<Rightarrow> string option" where
  "fromhex [] = Some []"
| "fromhex [c] = (if is_space c then Some [] else None)"
| "fromhex (c # d # cs) =
     (if is_space c then fromhex (d # cs)
      else (case (hex_digit c, hex_digit d) of
              (Some h, Some l) \<Rightarrow> map_option ((#) (char_of (16 * h + l))) (fromhex cs)
            | _ \<Rightarrow> None))"

record request =
  req_headers :: "string \<Rightarrow> string option"
  req_data :: string
  req_json :: "nat + json"

text \<open>The body of the \<^verbatim>\<open>try\<close> of \<^verbatim>\<open>verify_discord_request\<close>, in the order it raises.\<close>

definition verify_steps :: "externals \<Rightarrow> string \<Rightarrow> request \<Rightarrow> verify_fault + unit" where
  "verify_steps w public_key req =
     (case req_headers req ''X-Signature-Ed25519'' of
        None \<Rightarrow> Inl (MissingHeader ''X-Signature-Ed25519'')
      | Some signature \<Rightarrow>
     (case req_headers req ''X-Signature-Timestamp'' of
        None \<Rightarrow> Inl (MissingHeader ''X-Signature-Timestamp'')
      | Some timestamp \<Rightarrow>
     if \<not> valid_utf8 (req_data req) then Inl UnicodeDecodeError
     else (case fromhex public_key of
        None \<Rightarrow> Inl NonHexadecimal
      | Some k \<Rightarrow>
     if \<not> verify_key_accepts w k then Inl KeyRejected
     else (case fromhex signature of
        None \<Rightarrow> Inl NonHexadecimal
      | Some sg \<Rightarrow>
     if signature_verifies w k (timestamp @ req_data req) sg then Inr ()
     else Inl BadSignature))))"

text \<open>\<^verbatim>\<open>except Exception\<close>: every fault becomes a warning and the answer \<^verbatim>\<open>False\<close>.\<close>

definition verify_discord_request ::
  "externals \<Rightarrow> string \<Rightarrow> request \<Rightarrow> state \<Rightarrow> bool \<times> state" where
  "verify_discord_request w public_key req s =
     (case verify_steps w public_key req of
        Inr u \<Rightarrow> (True, s)
      | Inl e \<Rightarrow> (False, s\<lparr>logged := logged s @ [SignatureWarning e]\<rparr>))"

section \<open>The interaction handler\<close>

text \<open>
  What a request ends in: a response the handler returned (\<^verbatim>\<open>jsonify\<close>, status 200), an
  \<^verbatim>\<open>abort\<close> with its status, or an exception that left the handler, which the framework
  answers with its own error page. \<open>req_json\<close> is \<^verbatim>\<open>request.json\<close>: the parsed body, or
  the status of the error the framework's parser raises.
\<close>

datatype outcome =
    Response nat json
  | Abort nat string
  | Unhandled fault

definition reply :: "string \<Rightarrow> json" where
  "reply content = JObj [(''type'', JInt 4), (''data'', JObj [(''content'', JStr content)])]"

definition green_circle :: string where
  "green_circle = [CHR 0xF0, CHR 0x9F, CHR 0x9F, CHR 0xA2]"

definition red_circle :: string where
  "red_circle = [CHR 0xF0, CHR 0x9F, CHR 0x94, CHR 0xB4]"

definition check_mark :: string where
  "check_mark = [CHR 0xE2, CHR 0x9C, CHR 0x85]"

definition warning_sign :: string where
  "warning_sign = [CHR 0xE2, CHR 0x9A, CHR 0xA0]"

definition cross_mark :: string where
  "cross_mark = [CHR 0xE2, CHR 0x9D, CHR 0x8C]"

definition em_dash :: string where
  "em_dash = [CHR 0xE2, CHR 0x80, CHR 0x94]"

text \<open>The body of the \<^verbatim>\<open>try\<close> of \<^verbatim>\<open>interactions\<close>.\<close>

definition command_body ::
  "externals \<Rightarrow> json \<Rightarrow> json \<Rightarrow> json \<Rightarrow> state \<Rightarrow> (fault + json) \<times> state" where
  "command_body w data cmd user_display s =
     (if eq_str cmd ''start'' then
        (case log_to_sheet w user_display ''Start'' (JStr []) (JStr []) s of
           (Inl e, s') \<Rightarrow> (Inl e, s')
         | (Inr u, s') \<Rightarrow>
             (Inr (reply (green_circle @ '' Start logged for **'' @ py_str w user_display @ ''**'')), s'))
      else if eq_str cmd ''end'' then
        (case log_to_sheet w user_display ''End'' (JStr []) (JStr []) s of
           (Inl e, s') \<Rightarrow> (Inl e, s')
         | (Inr u, s') \<Rightarrow>
             (Inr (reply (red_circle @ '' End logged for **'' @ py_str w user_display @ ''**'')), s'))
      else if eq_str cmd ''work_done'' then
        (case and_then (py_get_default data ''data'' (JObj []))
                (\<lambda>d. py_get_default d ''options'' (JArr [])) of
           Inl e \<Rightarrow> (Inl e, s)
         | Inr options \<Rightarrow>
        (case option_value options ''task_title'' (JStr []) of
           Inl e \<Rightarrow> (Inl e, s)
         | Inr task_title \<Rightarrow>
        (case option_value options ''desc'' (JStr []) of
           Inl e \<Rightarrow> (Inl e, s)
         | Inr desc \<Rightarrow>
        (case log_to_sheet w user_display ''Task'' task_title desc s of
           (Inl e, s') \<Rightarrow> (Inl e, s')
         | (Inr u, s') \<Rightarrow>
             (Inr (reply (check_mark @ '' Task logged: **'' @ py_str w task_title @ ''** ''
                          @ em_dash @ '' '' @ py_str w desc)), s')))))
      else (Inr (reply (warning_sign @ '' Unknown command'')), s))"

text \<open>
  The branch of \<^verbatim>\<open>type == 2\<close>. The command name and the display name are computed
  before the \<^verbatim>\<open>try\<close>: a fault there leaves the handler.
\<close>

definition application_command :: "externals \<Rightarrow> json \<Rightarrow> state \<Rightarrow> outcome \<times> state" where
  "application_command w data s =
     (case and_then (py_get_default data ''data'' (JObj [])) (\<lambda>d. py_get d ''name'') of
        Inl e \<Rightarrow> (Unhandled e, s)
      | Inr cmd \<Rightarrow>
     (case extract_user_display data of
        Inl e \<Rightarrow> (Unhandled e, s)
      | Inr user_display \<Rightarrow>
     (case command_body w data cmd user_display s of
        (Inr body, s') \<Rightarrow> (Response 200 body, s')
      | (Inl e, s') \<Rightarrow>
          (Response 200 (reply (cross_mark @ '' Error: '' @ fault_str e)),
           s'\<lparr>logged := logged s' @ [CommandException e]\<rparr>))))"

definition interactions ::
  "externals \<Rightarrow> string \<Rightarrow> request \<Rightarrow> state \<Rightarrow> outcome \<times> state" where
  "interactions w public_key req s =
     (case verify_discord_request w public_key req s of
        (False, s1) \<Rightarrow> (Abort 401 ''Invalid request signature'', s1)
      | (True, s1) \<Rightarrow>
     (case req_json req of
        Inl status \<Rightarrow> (Abort status [], s1)
      | Inr j \<Rightarrow>
          let data = or_empty j in
          (case py_get data ''type'' of
             Inl e \<Rightarrow> (Unhandled e, s1)
           | Inr t \<Rightarrow>
               if eq_int t 1 then (Response 200 (JObj [(''type'', JInt 1)]), s1)
               else if eq_int t 2 then application_command w data s1
               else (Response 200 (reply ''Unsupported interaction type''), s1))))"

section \<open>Startup: configuration, command registration, serving\<close>
















section \<open>Reference definitions and example instances\<close>




text \<open>
  An instance of the parameters for the examples: a stand-in for the primitive that
  accepts the one signature \<^verbatim>\<open>ok\<close> (hexadecimal \<^verbatim>\<open>6f6b\<close>) on every key and message, a
  fixed clock, and a spreadsheet service that takes every row.
\<close>

definition example_externals :: externals where
  "example_externals =
     \<lparr>verify_key_accepts = (\<lambda>k. True),
      signature_verifies = (\<lambda>k m s. s = ''ok''),
      clock = Inr (''2024-05-01'', ''09:30:00''),
      append_row_fault = (\<lambda>r. None),
      str_other = (\<lambda>v. ''?'')\<rparr>"

definition example_headers :: "string \<Rightarrow> string \<Rightarrow> string \<Rightarrow> string option" where
  "example_headers signature timestamp =
     [''X-Signature-Ed25519'' \<mapsto> signature, ''X-Signature-Timestamp'' \<mapsto> timestamp]"

definition quoted :: "string \<Rightarrow> string" where
  "quoted s = [CHR 0x22] @ s @ [CHR 0x22]"

definition example_request :: "string \<Rightarrow> json \<Rightarrow> request" where
  "example_request body j =
     \<lparr>req_headers = example_headers ''6f6b'' ''1714555800'', req_data = body, req_json = Inr j\<rparr>"

definition empty_state :: state where
  "empty_state = \<lparr>sheet = [], append_calls = [], logged = []\<rparr>"




section \<open>Display name resolution\<close>

text \<open>
  C5. For an interaction payload exactly one display name is derived, by priority: the
  member nickname, otherwise the user's global display name, otherwise the username,
  otherwise the literal \<^verbatim>\<open>Unknown\<close>. Here \<open>mf\<close> are the bindings of the member object
  (none when the payload has no member, or a null or empty one) and \<open>uf\<close> those of the
  user object, which is the member's user when that is set and the payload's own user
  otherwise. A field counts as present when the program's test \<^verbatim>\<open>or\<close> takes it: when
  it is set to a value that is not null and not empty. A payload whose member or user is
  a non-empty value other than an object makes \<^verbatim>\<open>.get\<close> raise and is outside this
  statement.
\<close>

theorem display_name_priority:
  assumes m: "field d ''member'' = JObj mf \<or> (\<not> truthy (field d ''member'') \<and> mf = [])"
    and u: "(truthy (field mf ''user'') \<and> field mf ''user'' = JObj uf) \<or>
            (\<not> truthy (field mf ''user'') \<and>
               (field d ''user'' = JObj uf \<or> (\<not> truthy (field d ''user'') \<and> uf = [])))"
  shows "extract_user_display (JObj d) =
           Inr (if truthy (field mf ''nick'') then field mf ''nick''
                else if truthy (field uf ''global_name'') then field uf ''global_name''
                else if truthy (field uf ''username'') then field uf ''username''
                else JStr ''Unknown'')"
proof -
  define member where "member = or_empty (field d ''member'')"
  have fm: "py_get member k = Inr (field mf k)" for k
    using m unfolding member_def or_empty_def by (cases "mf = []") (auto simp: field_def)
  define user where "user = (if truthy (field mf ''user'') then field mf ''user''
       else or_empty (field d ''user''))"
  have fu: "py_get user k = Inr (field uf k)" for k
    using u unfolding user_def or_empty_def by (cases "uf = []") (auto simp: field_def)
  have step: "(if truthy (field mf ''user'') then Inr (field mf ''user'')
               else and_then (py_get (JObj d) ''user'') (\<lambda>u1. Inr (or_empty u1)))
              = (Inr user :: fault + json)"
    by (simp add: user_def)
  have "extract_user_display (JObj d) =
     and_then (py_get member ''user'') (\<lambda>u0.
     and_then (if truthy u0 then Inr u0
               else and_then (py_get (JObj d) ''user'') (\<lambda>u1. Inr (or_empty u1))) (\<lambda>user.
     and_then (py_get member ''nick'') (\<lambda>nick.
     if truthy nick then Inr nick
     else and_then (py_get user ''global_name'') (\<lambda>g.
          if truthy g then Inr g
          else and_then (py_get user ''username'') (\<lambda>n.
               if truthy n then Inr n else Inr (JStr ''Unknown''))))))"
    by (simp add: extract_user_display_def member_def Let_def)
  also have "\<dots> = and_then (Inr user :: fault + json) (\<lambda>user.
     and_then (py_get member ''nick'') (\<lambda>nick.
     if truthy nick then Inr nick
     else and_then (py_get user ''global_name'') (\<lambda>g.
          if truthy g then Inr g
          else and_then (py_get user ''username'') (\<lambda>n.
               if truthy n then Inr n else Inr (JStr ''Unknown'')))))"
    unfolding fm and_then.simps step ..
  also have "\<dots> = Inr (if truthy (field mf ''nick'') then field mf ''nick''
                else if truthy (field uf ''global_name'') then field uf ''global_name''
                else if truthy (field uf ''username'') then field uf ''username''
                else JStr ''Unknown'')"
    by (simp add: fm fu)
  finally show ?thesis .
qed

text \<open>The four payloads of the specification's example, in order.\<close>

theorem display_name_priority_witness:
  "extract_user_display (JObj [(''member'', JObj [(''nick'', JStr ''Bob''),
       (''user'', JObj [(''global_name'', JStr ''robert''), (''username'', JStr ''rob123'')])])])
     = Inr (JStr ''Bob'')
   \<and> extract_user_display (JObj [(''member'', JObj [
       (''user'', JObj [(''global_name'', JStr ''robert''), (''username'', JStr ''rob123'')])])])
     = Inr (JStr ''robert'')
   \<and> extract_user_display (JObj [(''user'', JObj [(''username'', JStr ''rob123'')])])
     = Inr (JStr ''rob123'')
   \<and> extract_user_display (JObj []) = Inr (JStr ''Unknown'')"
  using display_name_priority [of "[(''member'', JObj [(''nick'', JStr ''Bob''),
       (''user'', JObj [(''global_name'', JStr ''robert''), (''username'', JStr ''rob123'')])])]"
       "[(''nick'', JStr ''Bob''),
       (''user'', JObj [(''global_name'', JStr ''robert''), (''username'', JStr ''rob123'')])]"
       "[(''global_name'', JStr ''robert''), (''username'', JStr ''rob123'')]"]
    display_name_priority [of "[(''member'', JObj [
       (''user'', JObj [(''global_name'', JStr ''robert''), (''username'', JStr ''rob123'')])])]"
       "[(''user'', JObj [(''global_name'', JStr ''robert''), (''username'', JStr ''rob123'')])]"
       "[(''global_name'', JStr ''robert''), (''username'', JStr ''rob123'')]"]
    display_name_priority [of "[(''user'', JObj [(''username'', JStr ''rob123'')])]" "[]"
       "[(''username'', JStr ''rob123'')]"]
    display_name_priority [of "[]" "[]" "[]"]
  by (simp add: field_def)






section \<open>Requests that pass or fail verification\<close>

lemma verified_request:
  assumes "verify_steps w pk req = Inr ()"
  shows "verify_discord_request w pk req s = (True, s)"
  using assms by (simp add: verify_discord_request_def)

lemma rejected_request:
  assumes "verify_steps w pk req = Inl e"
  shows "verify_discord_request w pk req s = (False, s\<lparr>logged := logged s @ [SignatureWarning e]\<rparr>)"
  using assms by (simp add: verify_discord_request_def)

lemma example_signature: "fromhex ''6f6b'' = Some ''ok''"
  by code_simp

lemma example_key: "fromhex ''0a'' = Some [CHR 0x0A]"
  by code_simp

lemma example_verified:
  assumes "valid_utf8 body"
  shows "verify_steps example_externals ''0a'' (example_request body j) = Inr ()"
  using assms
  by (simp add: verify_steps_def example_request_def example_headers_def example_externals_def
      example_signature example_key del: fromhex.simps)

text \<open>
  C9. A verified payload with type 1 (PING) is answered with exactly \<^verbatim>\<open>{type: 1}\<close>, and
  the state is the one before the request: no row written, no call of the spreadsheet
  service, nothing logged. \<open>d\<close> are the bindings of the payload.
\<close>

theorem ping_pong:
  assumes "verify_steps w public_key req = Inr ()"
    and "req_json req = Inr j" and "or_empty j = JObj d"
    and "eq_int (field d ''type'') 1"
  shows "interactions w public_key req s = (Response 200 (JObj [(''type'', JInt 1)]), s)"
  using assms by (simp add: interactions_def verified_request)

theorem ping_pong_witness:
  "interactions example_externals ''0a''
     (example_request (''{'' @ quoted ''type'' @ '':1}'') (JObj [(''type'', JInt 1)])) empty_state
   = (Response 200 (JObj [(''type'', JInt 1)]), empty_state)"
  using ping_pong [of example_externals "''0a''"
      "example_request (''{'' @ quoted ''type'' @ '':1}'') (JObj [(''type'', JInt 1)])"
      "JObj [(''type'', JInt 1)]" "[(''type'', JInt 1)]" empty_state]
    example_verified [of "''{'' @ quoted ''type'' @ '':1}''" "JObj [(''type'', JInt 1)]"]
  by (simp add: example_request_def or_empty_def field_def quoted_def cont_def)



lemma rejected_interaction:
  assumes "verify_steps w pk req = Inl e"
  shows "interactions w pk req s
         = (Abort 401 ''Invalid request signature'', s\<lparr>logged := logged s @ [SignatureWarning e]\<rparr>)"
  using assms by (simp add: interactions_def rejected_request)

lemma verify_steps_fails:
  assumes "req_headers req ''X-Signature-Ed25519'' = None
         \<or> req_headers req ''X-Signature-Timestamp'' = None
         \<or> fromhex public_key = None
         \<or> (\<exists>sg. req_headers req ''X-Signature-Ed25519'' = Some sg \<and> fromhex sg = None)
         \<or> (\<exists>sg ts k sb. req_headers req ''X-Signature-Ed25519'' = Some sg
               \<and> req_headers req ''X-Signature-Timestamp'' = Some ts
               \<and> fromhex public_key = Some k \<and> fromhex sg = Some sb
               \<and> \<not> signature_verifies w k (ts @ req_data req) sb)"
  shows "\<exists>e. verify_steps w public_key req = Inl e"
  using assms unfolding verify_steps_def
  by (auto split: option.splits)

text \<open>
  C1. When a signature header is missing, the signature or the public key is not valid
  hexadecimal, or the Ed25519 check of the timestamp followed by the body fails, the
  verifier answers \<^verbatim>\<open>False\<close> (its result is a truth value in every case: the exception
  is caught and logged as a warning), the request is rejected with status 401, and the
  spreadsheet is untouched: no row is written and \<^verbatim>\<open>append_row\<close> is not called.
\<close>

theorem unverified_is_rejected:
  assumes "req_headers req ''X-Signature-Ed25519'' = None
         \<or> req_headers req ''X-Signature-Timestamp'' = None
         \<or> fromhex public_key = None
         \<or> (\<exists>sg. req_headers req ''X-Signature-Ed25519'' = Some sg \<and> fromhex sg = None)
         \<or> (\<exists>sg ts k sb. req_headers req ''X-Signature-Ed25519'' = Some sg
               \<and> req_headers req ''X-Signature-Timestamp'' = Some ts
               \<and> fromhex public_key = Some k \<and> fromhex sg = Some sb
               \<and> \<not> signature_verifies w k (ts @ req_data req) sb)"
  shows "\<exists>e. verify_discord_request w public_key req s
               = (False, s\<lparr>logged := logged s @ [SignatureWarning e]\<rparr>)
           \<and> interactions w public_key req s
               = (Abort 401 ''Invalid request signature'',
                  s\<lparr>logged := logged s @ [SignatureWarning e]\<rparr>)
           \<and> sheet (snd (interactions w public_key req s)) = sheet s
           \<and> append_calls (snd (interactions w public_key req s)) = append_calls s"
proof -
  obtain e where e: "verify_steps w public_key req = Inl e"
    using verify_steps_fails [OF assms] by blast
  show ?thesis
    using rejected_request [OF e] rejected_interaction [OF e]
    by (intro exI [of _ e]) simp
qed

text \<open>
  A \<^verbatim>\<open>start\<close> command without its signature header, and the same command with the
  signature \<^verbatim>\<open>6f6c\<close>, which the example primitive refuses.
\<close>

lemma refused_signature: "fromhex ''6f6c'' = Some ''ol''"
  by code_simp

theorem unverified_is_rejected_witness:
  "interactions example_externals ''0a''
     \<lparr>req_headers = [''X-Signature-Timestamp'' \<mapsto> ''1714555800''], req_data = ''{}'',
      req_json = Inr (JObj [(''type'', JInt 2), (''data'', JObj [(''name'', JStr ''start'')])])\<rparr>
     empty_state
   = (Abort 401 ''Invalid request signature'',
      \<lparr>sheet = [], append_calls = [],
       logged = [SignatureWarning (MissingHeader ''X-Signature-Ed25519'')]\<rparr>)
   \<and> interactions example_externals ''0a''
     \<lparr>req_headers = example_headers ''6f6c'' ''1714555800'', req_data = ''{}'',
      req_json = Inr (JObj [(''type'', JInt 2), (''data'', JObj [(''name'', JStr ''start'')])])\<rparr>
     empty_state
   = (Abort 401 ''Invalid request signature'',
      \<lparr>sheet = [], append_calls = [], logged = [SignatureWarning BadSignature]\<rparr>)"
proof -
  let ?j = "Inr (JObj [(''type'', JInt 2), (''data'', JObj [(''name'', JStr ''start'')])])"
  let ?r1 = "\<lparr>req_headers = [''X-Signature-Timestamp'' \<mapsto> ''1714555800''], req_data = ''{}'',
      req_json = ?j\<rparr>"
  let ?r2 = "\<lparr>req_headers = example_headers ''6f6c'' ''1714555800'', req_data = ''{}'',
      req_json = ?j\<rparr>"
  have h1: "req_headers ?r1 ''X-Signature-Ed25519'' = None"
    by simp
  have h2: "\<exists>sg ts k sb. req_headers ?r2 ''X-Signature-Ed25519'' = Some sg
               \<and> req_headers ?r2 ''X-Signature-Timestamp'' = Some ts
               \<and> fromhex ''0a'' = Some k \<and> fromhex sg = Some sb
               \<and> \<not> signature_verifies example_externals k (ts @ req_data ?r2) sb"
    by (simp add: example_headers_def example_key refused_signature example_externals_def
        del: fromhex.simps)
  have v1: "verify_steps example_externals ''0a'' ?r1 = Inl (MissingHeader ''X-Signature-Ed25519'')"
    by (simp add: verify_steps_def)
  have v2: "verify_steps example_externals ''0a'' ?r2 = Inl BadSignature"
    by (simp add: verify_steps_def example_headers_def example_key refused_signature
        example_externals_def cont_def del: fromhex.simps)
  from unverified_is_rejected [of ?r1 "''0a''" example_externals empty_state] h1
  obtain e1 where e1: "interactions example_externals ''0a'' ?r1 empty_state
      = (Abort 401 ''Invalid request signature'',
         empty_state\<lparr>logged := logged empty_state @ [SignatureWarning e1]\<rparr>)"
      "verify_discord_request example_externals ''0a'' ?r1 empty_state
               = (False, empty_state\<lparr>logged := logged empty_state @ [SignatureWarning e1]\<rparr>)"
    by blast
  from unverified_is_rejected [of ?r2 "''0a''" example_externals empty_state] h2
  obtain e2 where e2: "interactions example_externals ''0a'' ?r2 empty_state
      = (Abort 401 ''Invalid request signature'',
         empty_state\<lparr>logged := logged empty_state @ [SignatureWarning e2]\<rparr>)"
      "verify_discord_request example_externals ''0a'' ?r2 empty_state
               = (False, empty_state\<lparr>logged := logged empty_state @ [SignatureWarning e2]\<rparr>)"
    by blast
  have "e1 = MissingHeader ''X-Signature-Ed25519''"
    using e1(2) rejected_request [OF v1, of empty_state] by (simp add: empty_state_def)
  moreover have "e2 = BadSignature"
    using e2(2) rejected_request [OF v2, of empty_state] by (simp add: empty_state_def)
  ultimately show ?thesis
    using e1(1) e2(1) by (simp add: empty_state_def)
qed

section \<open>What the verifier accepts\<close>







section \<open>The three commands\<close>






section \<open>Faults inside the handler\<close>





section \<open>Startup\<close>









end
